theory Spec2Isabelle
  imports Main
begin

section \<open>Values of the program\<close>

text \<open>
  The program is one Python script, \<^verbatim>\<open>main.py\<close>: it reads two settings from the
  process environment, defines a Flask application with two routes, and, when run
  as the main script, probes the Unipile API and starts the development server.
  Everything the script does beyond computing values is made explicit here: the
  environment it reads, the console it prints to, the calls it makes to
  \<^verbatim>\<open>requests.get\<close> and to \<^verbatim>\<open>app.run\<close>, and the exceptions that end a computation.
\<close>

text \<open>
  An exception that has been raised: the name of its class and the string
  \<^verbatim>\<open>str(e)\<close> gives. \<^verbatim>\<open>str(e)\<close> is the empty string for an exception raised without
  arguments.
\<close>

datatype py_exception = PyException (exc_class: string) (str_exc: string)

text \<open>
  \<^verbatim>\<open>isinstance(e, Exception)\<close>, which decides whether \<^verbatim>\<open>except Exception\<close> catches
  \<open>e\<close>. The classes named are the built-in ones that derive from
  \<^verbatim>\<open>BaseException\<close> and not from \<^verbatim>\<open>Exception\<close>; any other name stands for a class
  that derives from \<^verbatim>\<open>Exception\<close>, as the exceptions of requests and the other
  built-in ones do.
\<close>

definition is_Exception :: "py_exception \<Rightarrow> bool" where
  "is_Exception e =
     (exc_class e \<notin> set [''BaseException'', ''KeyboardInterrupt'', ''SystemExit'',
                          ''GeneratorExit''])"

text \<open>
  What the script sees of a \<^verbatim>\<open>requests.Response\<close>: \<^verbatim>\<open>r.status_code\<close> and
  \<^verbatim>\<open>r.text\<close>.
\<close>

record response =
  status_code :: int
  resp_text :: string

text \<open>
  \<^verbatim>\<open>r.ok\<close> is a property of the requests library: it calls
  \<^verbatim>\<open>raise_for_status()\<close>, which raises for \<^verbatim>\<open>400 <= status_code < 600\<close>, and is
  \<^verbatim>\<open>True\<close> when nothing was raised.
\<close>

definition ok :: "response \<Rightarrow> bool" where
  "ok r = (if 400 \<le> status_code r \<and> status_code r < 600 then False else True)"

text \<open>The arguments of the one call \<^verbatim>\<open>requests.get(url, headers=headers, timeout=15)\<close>.\<close>

record http_request =
  req_method :: string
  req_url :: string
  req_headers :: "(string \<times> string) list"
  req_timeout :: int

text \<open>
  JSON values as the handlers build them: a Python dict literal is the list of its
  items in the order written.
\<close>

datatype json = JBool bool | JInt int | JStr string | JObject "(string \<times> json) list"

text \<open>A Flask response: the JSON body and the HTTP status.\<close>

record flask_response =
  body :: json
  status :: int

text \<open>The arguments of a \<^verbatim>\<open>print\<close> call; \<open>PRepr e\<close> is \<^verbatim>\<open>repr(e)\<close>.\<close>

datatype pyval = PStr string | PInt int | PBool bool | PRepr py_exception

text \<open>
  What the processes of one launch do to the outside, in order: a line printed, a
  call of \<^verbatim>\<open>requests.get\<close>, a call of \<^verbatim>\<open>app.run\<close>, and a server that starts to
  serve on a port.
\<close>

datatype event =
    Print "pyval list"
  | RequestsGet http_request
  | AppRun (run_port: int) (run_debug: bool)
  | Serve int

text \<open>
  The world the script runs in: the process environment, the entries of the
  \<^verbatim>\<open>.env\<close> file (empty when there is none), how the upstream answers a call of
  \<^verbatim>\<open>requests.get\<close> (a response, or an exception raised), the exception with which
  the console refuses a line that it cannot encode (none when it takes it), and
  the events so far.
\<close>

record world =
  environ :: "string \<rightharpoonup> string"
  dotenv_file :: "string \<rightharpoonup> string"
  upstream :: "http_request \<Rightarrow> py_exception + response"
  stdout_refuses :: "pyval list \<rightharpoonup> py_exception"
  trace :: "event list"

text \<open>The two module-level globals, once the module body has run.\<close>

record config =
  UNIPILE_DSN :: string
  UNIPILE_API_KEY :: string

section \<open>Statements in sequence, and try with except\<close>

text \<open>
  A piece of Python in a world ends with a value or with an exception raised, and
  leaves a world behind.
\<close>

type_synonym 'a py = "world \<Rightarrow> (py_exception + 'a) \<times> world"

text \<open>One statement after another: an exception raised by the first ends both.\<close>

definition then_do :: "'a py \<Rightarrow> ('a \<Rightarrow> 'b py) \<Rightarrow> 'b py" where
  "then_do m f w = (case m w of (Inl e, w') \<Rightarrow> (Inl e, w') | (Inr x, w') \<Rightarrow> f x w')"

definition returns :: "'a \<Rightarrow> 'a py" where
  "returns x w = (Inr x, w)"

text \<open>
  \<^verbatim>\<open>try: m  except Exception as e: h\<close>. An exception that is not an instance of
  \<^verbatim>\<open>Exception\<close> passes through.
\<close>

definition try_except :: "'a py \<Rightarrow> (py_exception \<Rightarrow> 'a py) \<Rightarrow> 'a py" where
  "try_except m h w =
     (case m w of
        (Inl e, w') \<Rightarrow> if is_Exception e then h e w' else (Inl e, w')
      | (Inr x, w') \<Rightarrow> (Inr x, w'))"

section \<open>Library calls\<close>

text \<open>
  \<^verbatim>\<open>print\<close> writes to a console that is open. Every console encoding holds the
  ASCII characters, so a line of string literals, numbers and truth values in
  ASCII is always written. For a line with other characters, or with the
  \<^verbatim>\<open>repr\<close> of an exception, whose text is not modelled, the console decides: it
  writes the line, or \<^verbatim>\<open>print\<close> raises (a \<^verbatim>\<open>UnicodeEncodeError\<close>, on a console
  whose encoding lacks a character).
\<close>

definition plain_ascii :: "pyval \<Rightarrow> bool" where
  "plain_ascii v =
     (case v of
        PStr s \<Rightarrow> list_all (\<lambda>c. \<not> digit7 c) s
      | PInt i \<Rightarrow> True
      | PBool b \<Rightarrow> True
      | PRepr e \<Rightarrow> False)"

definition refused :: "world \<Rightarrow> pyval list \<Rightarrow> py_exception option" where
  "refused w args = (if list_all plain_ascii args then None else stdout_refuses w args)"

definition py_print :: "pyval list \<Rightarrow> unit py" where
  "py_print args w =
     (case refused w args of
        None \<Rightarrow> (Inr (), w\<lparr>trace := trace w @ [Print args]\<rparr>)
      | Some e \<Rightarrow> (Inl e, w))"

text \<open>
  \<^verbatim>\<open>load_dotenv()\<close> adds the entries of the \<^verbatim>\<open>.env\<close> file to the environment and
  leaves a variable that is already set as it is.
\<close>

definition load_dotenv :: "world \<Rightarrow> world" where
  "load_dotenv w = w\<lparr>environ := dotenv_file w ++ environ w\<rparr>"

definition getenv :: "world \<Rightarrow> string \<Rightarrow> string \<Rightarrow> string" where
  "getenv w k d = (case environ w k of None \<Rightarrow> d | Some v \<Rightarrow> v)"

text \<open>\<^verbatim>\<open>s.rstrip(chars)\<close>: drops from the end every character that is in \<open>chars\<close>.\<close>

definition rstrip :: "string \<Rightarrow> string \<Rightarrow> string" where
  "rstrip chars s = rev (dropWhile (\<lambda>c. c \<in> set chars) (rev s))"

text \<open>Truth value of a Python string.\<close>

definition bool_str :: "string \<Rightarrow> bool" where
  "bool_str s = (s \<noteq> [])"

text \<open>
  \<^verbatim>\<open>requests.get\<close>: the call is recorded, and the upstream decides what comes back.
\<close>

definition requests_get :: "string \<Rightarrow> (string \<times> string) list \<Rightarrow> int \<Rightarrow> response py" where
  "requests_get url headers timeout w =
     (let req = \<lparr>req_method = ''GET'', req_url = url, req_headers = headers,
                 req_timeout = timeout\<rparr>
      in (upstream w req, w\<lparr>trace := trace w @ [RequestsGet req]\<rparr>))"

text \<open>
  \<^verbatim>\<open>jsonify(d)\<close> is a response with the dict as its JSON body and status 200; a view
  that returns the pair \<^verbatim>\<open>(response, status)\<close> has the status of the response set.
\<close>

definition jsonify :: "(string \<times> json) list \<Rightarrow> flask_response" where
  "jsonify d = \<lparr>body = JObject d, status = 200\<rparr>"

definition with_status :: "flask_response \<Rightarrow> int \<Rightarrow> flask_response" where
  "with_status rv s = rv\<lparr>status := s\<rparr>"

section \<open>The script\<close>

text \<open>Lines 11 to 21: the settings are loaded, or the import fails.\<close>

definition module_body :: "config py" where
  "module_body =
     then_do (py_print [PStr ''Loading environment variables...'']) (\<lambda>_ w1.
       (let w2 = load_dotenv w1;
            dsn = rstrip ''/'' (getenv w2 ''UNIPILE_DSN'' '''');
            api_key = getenv w2 ''UNIPILE_API_KEY'' ''''
        in then_do (py_print [PStr ''UNIPILE_DSN loaded:'', PBool (bool_str dsn)]) (\<lambda>_.
           then_do (py_print [PStr ''UNIPILE_API_KEY loaded:'', PBool (bool_str api_key)])
             (\<lambda>_ w4.
                if \<not> bool_str dsn \<or> \<not> bool_str api_key
                then (Inl (PyException ''RuntimeError''
                             ''Missing UNIPILE_DSN or UNIPILE_API_KEY in .env''), w4)
                else (Inr \<lparr>UNIPILE_DSN = dsn, UNIPILE_API_KEY = api_key\<rparr>, w4))) w2))"

definition ping_unipile :: "config \<Rightarrow> response py" where
  "ping_unipile cfg w =
     (let url = UNIPILE_DSN cfg @ ''/api/v1/accounts'';
          headers = [(''X-API-KEY'', UNIPILE_API_KEY cfg),
                     (''accept'', ''application/json'')]
      in requests_get url headers 15 w)"

definition home :: "flask_response py" where
  "home w =
     (Inr (jsonify [(''ok'', JBool True),
                    (''message'', JStr ''Flask server is running''),
                    (''next_step'', JStr ''/health/unipile'')]), w)"

definition health_unipile :: "config \<Rightarrow> flask_response py" where
  "health_unipile cfg =
     try_except
       (then_do (ping_unipile cfg) (\<lambda>r.
          returns (with_status
                     (jsonify [(''ok'', JBool (ok r)),
                               (''status_code'', JInt (status_code r)),
                               (''response'', JStr (resp_text r))])
                     (if ok r then 200 else status_code r))))
       (\<lambda>e. returns (with_status
                        (jsonify [(''ok'', JBool False),
                                  (''error'', JStr (str_exc e))])
                        500))"

text \<open>
  Lines 91 to 101, the block under \<^verbatim>\<open>if __name__ == "__main__"\<close>. What
  \<^verbatim>\<open>app.run\<close> does depends on the process that calls it, so it is the argument
  \<open>run\<close>.
\<close>

definition main_block :: "(int \<Rightarrow> bool \<Rightarrow> unit py) \<Rightarrow> config \<Rightarrow> unit py" where
  "main_block run cfg =
     then_do (py_print [PStr ''Pinging Unipile on startup...'']) (\<lambda>_.
     then_do
       (try_except
          (then_do (ping_unipile cfg) (\<lambda>r.
           then_do (py_print [PStr ''Unipile status code:'', PInt (status_code r)]) (\<lambda>_.
           py_print [PStr ''Unipile response:'', PStr (resp_text r)])))
          (\<lambda>e. py_print [PStr ''Unipile ping FAILED:'', PRepr e])) (\<lambda>_.
     then_do (py_print [PStr ''Starting Flask server at http://localhost:5000'']) (\<lambda>_.
     run 5000 True)))"

text \<open>The whole file, run under the module name \<open>name\<close>.\<close>

definition script_with :: "(int \<Rightarrow> bool \<Rightarrow> unit py) \<Rightarrow> string \<Rightarrow> unit py" where
  "script_with run name =
     then_do module_body (\<lambda>cfg.
       if name = ''__main__'' then main_block run cfg else returns ())"

text \<open>
  \<^verbatim>\<open>app.run\<close> in a process that serves: the server starts to serve on the port.
  The value is returned when the server has been started; what follows its end
  is not part of the model.
\<close>

definition serve :: "int \<Rightarrow> bool \<Rightarrow> unit py" where
  "serve p d w = (Inr (), w\<lparr>trace := trace w @ [AppRun p d, Serve p]\<rparr>)"

text \<open>
  \<^verbatim>\<open>app.run(port=p, debug=d)\<close>. With \<^verbatim>\<open>debug=True\<close> Flask turns Werkzeug's reloader
  on. A process that the reloader has not started (\<^verbatim>\<open>WERKZEUG_RUN_MAIN\<close> is not
  \<^verbatim>\<open>true\<close> in its environment) does not serve: it starts the script again as a
  child process, with its own environment and \<^verbatim>\<open>WERKZEUG_RUN_MAIN=true\<close> added,
  and waits for it. The child runs the whole script, and its call of \<^verbatim>\<open>app.run\<close>
  is the one that serves. Without the reloader the calling process serves.
\<close>

definition app_run :: "int \<Rightarrow> bool \<Rightarrow> unit py" where
  "app_run p d w =
     (if d \<and> environ w ''WERKZEUG_RUN_MAIN'' \<noteq> Some ''true''
      then script_with serve ''__main__''
             (w\<lparr>environ := (environ w)(''WERKZEUG_RUN_MAIN'' \<mapsto> ''true''),
                trace := trace w @ [AppRun p d]\<rparr>)
      else serve p d w)"

definition script :: "string \<Rightarrow> unit py" where
  "script name = script_with app_run name"

section \<open>Reading requests and responses\<close>

text \<open>
  HTTP header names are compared without regard to the case of ASCII letters, so
  the header the script writes as \<^verbatim>\<open>accept\<close> is the \<^verbatim>\<open>Accept\<close> header.
\<close>

definition ascii_lower :: "char \<Rightarrow> char" where
  "ascii_lower c =
     (case map_of (zip ''ABCDEFGHIJKLMNOPQRSTUVWXYZ'' ''abcdefghijklmnopqrstuvwxyz'') c of
        None \<Rightarrow> c
      | Some l \<Rightarrow> l)"

definition header :: "string \<Rightarrow> (string \<times> string) list \<Rightarrow> string option" where
  "header name hs =
     map_of (map (\<lambda>(k, v). (map ascii_lower k, v)) hs) (map ascii_lower name)"

section \<open>Example worlds\<close>

definition cfg_example :: config where
  "cfg_example =
     \<lparr>UNIPILE_DSN = ''https://api.example.com'', UNIPILE_API_KEY = ''secret123''\<rparr>"

text \<open>An upstream that gives the same outcome to every call.\<close>

definition always :: "py_exception + response \<Rightarrow> http_request \<Rightarrow> py_exception + response" where
  "always out req = out"

text \<open>
  A process started with the two variables set, the base URL with a slash at its
  end, no \<^verbatim>\<open>.env\<close> file, a console that takes every line, and nothing done yet.
\<close>

definition world_of :: "(http_request \<Rightarrow> py_exception + response) \<Rightarrow> world" where
  "world_of up =
     \<lparr>environ = [''UNIPILE_DSN'' \<mapsto> ''https://api.example.com/'',
                 ''UNIPILE_API_KEY'' \<mapsto> ''secret123''],
      dotenv_file = Map.empty,
      upstream = up,
      stdout_refuses = Map.empty,
      trace = []\<rparr>"

text \<open>The same start with no API key anywhere.\<close>

definition world_without_key :: world where
  "world_without_key =
     \<lparr>environ = [''UNIPILE_DSN'' \<mapsto> ''https://api.example.com/''],
      dotenv_file = Map.empty,
      upstream = always (Inr \<lparr>status_code = 200, resp_text = ''''\<rparr>),
      stdout_refuses = Map.empty,
      trace = []\<rparr>"

text \<open>The same start with three slashes at the end of the base URL.\<close>

definition world_slashes :: world where
  "world_slashes =
     \<lparr>environ = [''UNIPILE_DSN'' \<mapsto> ''https://api.example.com///'',
                 ''UNIPILE_API_KEY'' \<mapsto> ''secret123''],
      dotenv_file = Map.empty,
      upstream = always (Inr \<lparr>status_code = 200, resp_text = ''''\<rparr>),
      stdout_refuses = Map.empty,
      trace = []\<rparr>"



section \<open>What the probe and the module body compute\<close>

subsection \<open>Stripping\<close>

lemma rstrip_replicate:
  assumes "b = [] \<or> last b \<notin> set chars" and "c \<in> set chars"
  shows "rstrip chars (b @ replicate n c) = b"
proof -
  have "dropWhile (\<lambda>x. x \<in> set chars) (replicate n c @ rev b) =
          dropWhile (\<lambda>x. x \<in> set chars) (rev b)"
    using assms(2) by (intro dropWhile_append2) simp
  moreover have "dropWhile (\<lambda>x. x \<in> set chars) (rev b) = rev b"
    using assms(1) by (auto simp: dropWhile_eq_self_iff hd_rev)
  ultimately show ?thesis by (simp add: rstrip_def)
qed

lemma rstrip_idem: "rstrip chars (rstrip chars s) = rstrip chars s"
  by (simp add: rstrip_def)

lemma rstrip_last: "rstrip chars s \<noteq> [] \<Longrightarrow> last (rstrip chars s) \<notin> set chars"
  using hd_dropWhile [of "\<lambda>c. c \<in> set chars" "rev s"]
  by (simp add: rstrip_def last_rev)

lemma rstrip_Nil: "rstrip chars [] = []"
  by (simp add: rstrip_def)

lemma rstrip_example: "rstrip ''/'' ''https://api.example.com/'' = ''https://api.example.com''"
  by (simp add: rstrip_def)

subsection \<open>Printing\<close>

lemma refused_trace: "refused (w\<lparr>trace := t\<rparr>) args = refused w args"
  by (simp add: refused_def)

lemma refused_environ: "refused (w\<lparr>environ := t\<rparr>) args = refused w args"
  by (simp add: refused_def)

lemma py_print_written:
  "refused w args = None \<Longrightarrow> py_print args w = (Inr (), w\<lparr>trace := trace w @ [Print args]\<rparr>)"
  by (simp add: py_print_def)

lemma py_print_raised:
  "refused w args = Some e \<Longrightarrow> py_print args w = (Inl e, w)"
  by (simp add: py_print_def)

lemma refused_literal:
  "refused w [PStr ''Loading environment variables...''] = None"
  "refused w [PStr ''UNIPILE_DSN loaded:'', PBool b] = None"
  "refused w [PStr ''UNIPILE_API_KEY loaded:'', PBool b] = None"
  "refused w [PStr ''Pinging Unipile on startup...''] = None"
  "refused w [PStr ''Unipile status code:'', PInt i] = None"
  "refused w [PStr ''Starting Flask server at http://localhost:5000''] = None"
  by (simp_all add: refused_def plain_ascii_def)

subsection \<open>The module body and the probe, in one step\<close>

lemma module_body_eq:
  "module_body w =
    (let dsn = rstrip ''/'' (getenv (load_dotenv w) ''UNIPILE_DSN'' '''');
         api_key = getenv (load_dotenv w) ''UNIPILE_API_KEY'' '''';
         w' = w\<lparr>environ := dotenv_file w ++ environ w,
                 trace := trace w @
                   [Print [PStr ''Loading environment variables...''],
                    Print [PStr ''UNIPILE_DSN loaded:'', PBool (dsn \<noteq> [])],
                    Print [PStr ''UNIPILE_API_KEY loaded:'', PBool (api_key \<noteq> [])]]\<rparr>
     in if dsn = [] \<or> api_key = []
        then (Inl (PyException ''RuntimeError''
                     ''Missing UNIPILE_DSN or UNIPILE_API_KEY in .env''), w')
        else (Inr \<lparr>UNIPILE_DSN = dsn, UNIPILE_API_KEY = api_key\<rparr>, w'))"
  by (simp add: module_body_def then_do_def py_print_written refused_literal refused_trace
        refused_environ Let_def load_dotenv_def getenv_def bool_str_def)

lemma module_body_example:
  "fst (module_body (world_of up)) = Inr cfg_example"
  by (simp add: module_body_eq Let_def getenv_def load_dotenv_def world_of_def
        rstrip_example cfg_example_def)

lemma ping_unipile_eq:
  "ping_unipile cfg w =
     (upstream w
        \<lparr>req_method = ''GET'', req_url = UNIPILE_DSN cfg @ ''/api/v1/accounts'',
         req_headers = [(''X-API-KEY'', UNIPILE_API_KEY cfg),
                        (''accept'', ''application/json'')],
         req_timeout = 15\<rparr>,
      w\<lparr>trace := trace w @
          [RequestsGet
             \<lparr>req_method = ''GET'', req_url = UNIPILE_DSN cfg @ ''/api/v1/accounts'',
              req_headers = [(''X-API-KEY'', UNIPILE_API_KEY cfg),
                             (''accept'', ''application/json'')],
              req_timeout = 15\<rparr>]\<rparr>)"
  by (simp add: ping_unipile_def requests_get_def Let_def)

lemma health_unipile_Inr:
  assumes "fst (ping_unipile cfg w) = Inr r"
  shows "fst (health_unipile cfg w) =
           Inr \<lparr>body = JObject [(''ok'', JBool (ok r)),
                                 (''status_code'', JInt (status_code r)),
                                 (''response'', JStr (resp_text r))],
                status = (if ok r then 200 else status_code r)\<rparr>"
  using assms
  by (cases "ping_unipile cfg w")
     (simp add: health_unipile_def try_except_def then_do_def returns_def jsonify_def
        with_status_def)

lemma health_unipile_Inl:
  assumes "fst (ping_unipile cfg w) = Inl e" and "is_Exception e"
  shows "fst (health_unipile cfg w) =
           Inr \<lparr>body = JObject [(''ok'', JBool False), (''error'', JStr (str_exc e))],
                status = 500\<rparr>"
  using assms
  by (cases "ping_unipile cfg w")
     (simp add: health_unipile_def try_except_def then_do_def returns_def jsonify_def
        with_status_def)

lemma health_unipile_passes:
  assumes "fst (ping_unipile cfg w) = Inl e" and "\<not> is_Exception e"
  shows "fst (health_unipile cfg w) = Inl e"
  using assms
  by (cases "ping_unipile cfg w")
     (simp add: health_unipile_def try_except_def then_do_def returns_def)

lemma ping_example:
  "fst (ping_unipile cfg (world_of (always out))) = out"
  by (simp add: ping_unipile_eq world_of_def always_def)

subsection \<open>The main block and the reloader\<close>



lemma main_block_passes:
  assumes "upstream w
             \<lparr>req_method = ''GET'', req_url = UNIPILE_DSN cfg @ ''/api/v1/accounts'',
              req_headers = [(''X-API-KEY'', UNIPILE_API_KEY cfg),
                             (''accept'', ''application/json'')],
              req_timeout = 15\<rparr> = Inl e"
    and "\<not> is_Exception e"
  shows "main_block run cfg w =
           (Inl e,
            w\<lparr>trace := trace w @
                [Print [PStr ''Pinging Unipile on startup...''],
                 RequestsGet
                   \<lparr>req_method = ''GET'', req_url = UNIPILE_DSN cfg @ ''/api/v1/accounts'',
                    req_headers = [(''X-API-KEY'', UNIPILE_API_KEY cfg),
                                   (''accept'', ''application/json'')],
                    req_timeout = 15\<rparr>]\<rparr>)"
  using assms
  by (simp add: main_block_def then_do_def try_except_def py_print_written ping_unipile_eq
        refused_trace refused_literal)




text \<open>
  In the child that the reloader starts, \<^verbatim>\<open>WERKZEUG_RUN_MAIN\<close> is \<^verbatim>\<open>true\<close> and
  stays so, and \<^verbatim>\<open>app.run\<close> serves: the script run there with \<open>app_run\<close> is the
  script run with \<open>serve\<close>, which is how \<open>app_run\<close> starts it.
\<close>

lemma app_run_child:
  "environ w ''WERKZEUG_RUN_MAIN'' = Some ''true'' \<Longrightarrow> app_run p d w = serve p d w"
  by (simp add: app_run_def)

lemma main_block_run:
  assumes "\<And>w'. environ w' = environ w \<Longrightarrow> run1 5000 True w' = run2 5000 True w'"
  shows "main_block run1 cfg w = main_block run2 cfg w"
  using assms
  by (auto simp add: main_block_def then_do_def try_except_def py_print_def ping_unipile_eq
        split: sum.splits option.splits prod.splits)

lemma script_with_child:
  assumes "environ w ''WERKZEUG_RUN_MAIN'' = Some ''true''"
  shows "script_with app_run name w = script_with serve name w"
proof (cases "module_body w")
  case (Pair out w1)
  show ?thesis
  proof (cases out)
    case (Inl e)
    with Pair show ?thesis by (simp add: script_with_def then_do_def)
  next
    case (Inr cfg)
    with Pair have "environ w1 = dotenv_file w ++ environ w"
      by (auto simp add: module_body_eq Let_def split: if_splits)
    with assms have "environ w1 ''WERKZEUG_RUN_MAIN'' = Some ''true''"
      by (simp add: map_add_def)
    then have "main_block app_run cfg w1 = main_block serve cfg w1"
      by (intro main_block_run) (simp add: app_run_child)
    with Pair Inr show ?thesis by (simp add: script_with_def then_do_def)
  qed
qed

section \<open>The routes\<close>

text \<open>
  C4. \<^verbatim>\<open>GET /\<close>: in every world the view \<open>home\<close> returns status 200 and the fixed
  body \<^verbatim>\<open>{ok: true, message: "Flask server is running", next_step: "/health/unipile"}\<close>,
  whatever the upstream would answer, and it leaves the world as it was: no call
  is made and nothing is printed.
\<close>

theorem home_fixed_response:
  "home w =
     (Inr \<lparr>body = JObject [(''ok'', JBool True),
                            (''message'', JStr ''Flask server is running''),
                            (''next_step'', JStr ''/health/unipile'')],
           status = 200\<rparr>, w)"
  by (simp add: home_def jsonify_def)

text \<open>
  C2. When the probe receives a response with a status code from 200 to 299,
  \<open>health_unipile\<close> returns status 200 and the body
  \<^verbatim>\<open>{ok: true, status_code: <upstream status>, response: <upstream text>}\<close>.
\<close>

theorem health_unipile_2xx:
  assumes "fst (ping_unipile cfg w) = Inr r"
    and "200 \<le> status_code r" and "status_code r < 300"
  shows "fst (health_unipile cfg w) =
           Inr \<lparr>body = JObject [(''ok'', JBool True),
                                 (''status_code'', JInt (status_code r)),
                                 (''response'', JStr (resp_text r))],
                status = 200\<rparr>"
  using assms by (simp add: health_unipile_Inr ok_def)

theorem health_unipile_2xx_witness:
  "fst (health_unipile cfg_example
          (world_of (always (Inr \<lparr>status_code = 204, resp_text = ''''\<rparr>)))) =
     Inr \<lparr>body = JObject [(''ok'', JBool True), (''status_code'', JInt 204),
                           (''response'', JStr '''')],
          status = 200\<rparr>"
  using health_unipile_2xx [of cfg_example
      "world_of (always (Inr \<lparr>status_code = 204, resp_text = ''''\<rparr>))"
      "\<lparr>status_code = 204, resp_text = ''''\<rparr>"]
  by (simp add: ping_example)

text \<open>
  C9, as the code has it. When the probe returns a response, or raises an
  exception that is an instance of \<^verbatim>\<open>Exception\<close>, \<open>health_unipile\<close> returns a
  response, a JSON body with an HTTP status, and raises nothing. An exception of
  the probe that is not an instance of \<^verbatim>\<open>Exception\<close> (\<^verbatim>\<open>KeyboardInterrupt\<close>,
  \<^verbatim>\<open>SystemExit\<close>) is not caught by line 80: the handler raises it.
\<close>

theorem health_unipile_returns_or_passes:
  "(case fst (ping_unipile cfg w) of
      Inr r \<Rightarrow> \<exists>rv. fst (health_unipile cfg w) = Inr rv
    | Inl e \<Rightarrow>
        if is_Exception e then \<exists>rv. fst (health_unipile cfg w) = Inr rv
        else fst (health_unipile cfg w) = Inl e)"
  by (simp add: health_unipile_Inr health_unipile_Inl health_unipile_passes split: sum.splits)

theorem health_unipile_returns_or_passes_witness:
  "\<exists>rv. fst (health_unipile cfg_example
              (world_of (always (Inl (PyException ''ReadTimeout'' ''Read timed out''))))) =
          Inr rv"
  using health_unipile_returns_or_passes [of cfg_example
      "world_of (always (Inl (PyException ''ReadTimeout'' ''Read timed out'')))"]
  by (simp add: ping_example is_Exception_def)

text \<open>
  C9 as stated fails when the probe raises \<^verbatim>\<open>KeyboardInterrupt\<close>: the handler
  returns no response, it raises the exception.
\<close>

theorem health_unipile_interrupt_counterexample:
  "fst (ping_unipile cfg_example
          (world_of (always (Inl (PyException ''KeyboardInterrupt'' ''''))))) =
     Inl (PyException ''KeyboardInterrupt'' '''') \<and>
   fst (health_unipile cfg_example
          (world_of (always (Inl (PyException ''KeyboardInterrupt'' ''''))))) =
     Inl (PyException ''KeyboardInterrupt'' '''')"
  by (simp add: health_unipile_passes [of _ _ "PyException ''KeyboardInterrupt'' ''''"]
        ping_example is_Exception_def)

text \<open>
  C1, as the code has it. The claim says that every response outside 200 to 299
  is passed on with its own status and \<^verbatim>\<open>ok: false\<close>. The handler follows
  \<^verbatim>\<open>r.ok\<close>, which is false for the status codes from 400 to 599 only: such a
  response is passed on with its own status and \<^verbatim>\<open>ok: false\<close>, and any other
  response outside 200 to 299 (a 304, say) is answered with status 200 and
  \<^verbatim>\<open>ok: true\<close>.
\<close>

theorem health_unipile_not_2xx:
  assumes "fst (ping_unipile cfg w) = Inr r"
    and "\<not> (200 \<le> status_code r \<and> status_code r < 300)"
  shows "fst (health_unipile cfg w) =
           (if 400 \<le> status_code r \<and> status_code r < 600
            then Inr \<lparr>body = JObject [(''ok'', JBool False),
                                      (''status_code'', JInt (status_code r)),
                                      (''response'', JStr (resp_text r))],
                      status = status_code r\<rparr>
            else Inr \<lparr>body = JObject [(''ok'', JBool True),
                                      (''status_code'', JInt (status_code r)),
                                      (''response'', JStr (resp_text r))],
                      status = 200\<rparr>)"
  using assms(1) by (simp add: health_unipile_Inr ok_def)

theorem health_unipile_not_2xx_witness:
  "fst (health_unipile cfg_example
          (world_of (always (Inr \<lparr>status_code = 401, resp_text = ''Unauthorized''\<rparr>)))) =
     Inr \<lparr>body = JObject [(''ok'', JBool False), (''status_code'', JInt 401),
                           (''response'', JStr ''Unauthorized'')],
          status = 401\<rparr>"
  using health_unipile_not_2xx [of cfg_example
      "world_of (always (Inr \<lparr>status_code = 401, resp_text = ''Unauthorized''\<rparr>))"
      "\<lparr>status_code = 401, resp_text = ''Unauthorized''\<rparr>"]
  by (simp add: ping_example)

text \<open>
  C1 as stated fails on a 304 response: the probe receives it, and the handler
  answers with status 200, not 304, and \<^verbatim>\<open>ok: true\<close>.
\<close>

theorem health_unipile_304_counterexample:
  "fst (ping_unipile cfg_example
          (world_of (always (Inr \<lparr>status_code = 304, resp_text = ''''\<rparr>)))) =
     Inr \<lparr>status_code = 304, resp_text = ''''\<rparr> \<and>
   fst (health_unipile cfg_example
          (world_of (always (Inr \<lparr>status_code = 304, resp_text = ''''\<rparr>)))) =
     Inr \<lparr>body = JObject [(''ok'', JBool True), (''status_code'', JInt 304),
                           (''response'', JStr '''')],
          status = 200\<rparr>"
  by (simp add: health_unipile_Inr [of _ _ "\<lparr>status_code = 304, resp_text = ''''\<rparr>"]
        ping_example ok_def)

text \<open>
  C3, as the code has it. When the probe raises an exception \<open>e\<close> that is an
  instance of \<^verbatim>\<open>Exception\<close>, the class line 80 catches, \<open>health_unipile\<close> returns
  status 500 and the body \<^verbatim>\<open>{ok: false, error: str(e)}\<close>. The error string is the
  message of the exception, whatever it is; the claim's addition that it is never
  empty does not hold.
\<close>

theorem health_unipile_exception:
  assumes "fst (ping_unipile cfg w) = Inl e" and "is_Exception e"
  shows "fst (health_unipile cfg w) =
           Inr \<lparr>body = JObject [(''ok'', JBool False), (''error'', JStr (str_exc e))],
                status = 500\<rparr>"
  using assms by (rule health_unipile_Inl)

theorem health_unipile_exception_witness:
  "fst (health_unipile cfg_example
          (world_of (always (Inl (PyException ''ConnectionError'' ''Connection refused''))))) =
     Inr \<lparr>body = JObject [(''ok'', JBool False), (''error'', JStr ''Connection refused'')],
          status = 500\<rparr>"
  using health_unipile_exception [of cfg_example
      "world_of (always (Inl (PyException ''ConnectionError'' ''Connection refused'')))"
      "PyException ''ConnectionError'' ''Connection refused''"]
  by (simp add: ping_example is_Exception_def)

text \<open>
  C3 as stated fails on an exception that carries no message, such as
  \<^verbatim>\<open>MemoryError()\<close>: the error string of the answer is empty. It fails as well on
  an exception that is not an instance of \<^verbatim>\<open>Exception\<close>, such as \<^verbatim>\<open>SystemExit\<close>:
  there is no answer with status 500, the handler raises the exception.
\<close>

theorem health_unipile_exception_counterexample:
  "fst (ping_unipile cfg_example
          (world_of (always (Inl (PyException ''MemoryError'' ''''))))) =
     Inl (PyException ''MemoryError'' '''') \<and>
   fst (health_unipile cfg_example
          (world_of (always (Inl (PyException ''MemoryError'' ''''))))) =
     Inr \<lparr>body = JObject [(''ok'', JBool False), (''error'', JStr '''')], status = 500\<rparr> \<and>
   fst (ping_unipile cfg_example
          (world_of (always (Inl (PyException ''SystemExit'' ''1''))))) =
     Inl (PyException ''SystemExit'' ''1'') \<and>
   fst (health_unipile cfg_example
          (world_of (always (Inl (PyException ''SystemExit'' ''1''))))) =
     Inl (PyException ''SystemExit'' ''1'')"
  by (simp add: health_unipile_Inl [of _ _ "PyException ''MemoryError'' ''''"]
        health_unipile_passes [of _ _ "PyException ''SystemExit'' ''1''"]
        ping_example is_Exception_def)

section \<open>The probe\<close>

text \<open>
  C5. For every configuration, \<open>ping_unipile\<close> makes exactly one call of
  \<^verbatim>\<open>requests.get\<close>: a GET of the base URL followed by \<^verbatim>\<open>/api/v1/accounts\<close>, with
  the header \<^verbatim>\<open>X-API-KEY\<close> set to the API key and the header \<^verbatim>\<open>Accept\<close> set to
  \<^verbatim>\<open>application/json\<close>, and a timeout of 15 seconds. Its result is what the call
  gives: an exception raised by the call is raised by the probe.
\<close>

theorem ping_unipile_one_get:
  "ping_unipile cfg w =
     (upstream w
        \<lparr>req_method = ''GET'', req_url = UNIPILE_DSN cfg @ ''/api/v1/accounts'',
         req_headers = [(''X-API-KEY'', UNIPILE_API_KEY cfg),
                        (''accept'', ''application/json'')],
         req_timeout = 15\<rparr>,
      w\<lparr>trace := trace w @
          [RequestsGet
             \<lparr>req_method = ''GET'', req_url = UNIPILE_DSN cfg @ ''/api/v1/accounts'',
              req_headers = [(''X-API-KEY'', UNIPILE_API_KEY cfg),
                             (''accept'', ''application/json'')],
              req_timeout = 15\<rparr>]\<rparr>) \<and>
   header ''X-API-KEY'' [(''X-API-KEY'', UNIPILE_API_KEY cfg),
                         (''accept'', ''application/json'')] = Some (UNIPILE_API_KEY cfg) \<and>
   header ''Accept'' [(''X-API-KEY'', UNIPILE_API_KEY cfg),
                      (''accept'', ''application/json'')] = Some ''application/json'' \<and>
   (\<forall>e. upstream w
           \<lparr>req_method = ''GET'', req_url = UNIPILE_DSN cfg @ ''/api/v1/accounts'',
            req_headers = [(''X-API-KEY'', UNIPILE_API_KEY cfg),
                           (''accept'', ''application/json'')],
            req_timeout = 15\<rparr> = Inl e \<longrightarrow>
        fst (ping_unipile cfg w) = Inl e)"
  by (simp add: ping_unipile_eq header_def ascii_lower_def)

theorem ping_unipile_one_get_witness:
  "ping_unipile cfg_example (world_of (always (Inl (PyException ''ReadTimeout'' ''timed out'')))) =
     (Inl (PyException ''ReadTimeout'' ''timed out''),
      (world_of (always (Inl (PyException ''ReadTimeout'' ''timed out''))))
        \<lparr>trace :=
          [RequestsGet
             \<lparr>req_method = ''GET'', req_url = ''https://api.example.com/api/v1/accounts'',
              req_headers = [(''X-API-KEY'', ''secret123''),
                             (''accept'', ''application/json'')],
              req_timeout = 15\<rparr>]\<rparr>)"
  using ping_unipile_one_get [of cfg_example
      "world_of (always (Inl (PyException ''ReadTimeout'' ''timed out'')))"]
  by (simp add: world_of_def always_def cfg_example_def)

section \<open>Startup\<close>

text \<open>
  C6. Once \<^verbatim>\<open>load_dotenv()\<close> has run, if \<^verbatim>\<open>UNIPILE_DSN\<close> or \<^verbatim>\<open>UNIPILE_API_KEY\<close> is
  not set or is the empty string, the script ends with the \<^verbatim>\<open>RuntimeError\<close> of
  line 21, under any module name, and what it did before contains no call of
  \<^verbatim>\<open>app.run\<close> (no port is bound) and no request. When the settings do load, the
  base URL kept is the value of \<^verbatim>\<open>UNIPILE_DSN\<close> with its trailing slashes stripped:
  it is not empty and does not end in a slash, and the API key is not empty.
\<close>

theorem missing_setting_is_fatal:
  "(environ (load_dotenv w) ''UNIPILE_DSN'' \<in> {None, Some ''''} \<or>
    environ (load_dotenv w) ''UNIPILE_API_KEY'' \<in> {None, Some ''''} \<longrightarrow>
      (\<exists>evs w'. script name w =
           (Inl (PyException ''RuntimeError''
                   ''Missing UNIPILE_DSN or UNIPILE_API_KEY in .env''), w') \<and>
         trace w' = trace w @ evs \<and>
         (\<forall>p d. AppRun p d \<notin> set evs) \<and> (\<forall>req. RequestsGet req \<notin> set evs))) \<and>
   (\<forall>cfg w'. module_body w = (Inr cfg, w') \<longrightarrow>
      UNIPILE_DSN cfg = rstrip ''/'' (getenv (load_dotenv w) ''UNIPILE_DSN'' '''') \<and>
      UNIPILE_DSN cfg \<noteq> [] \<and> last (UNIPILE_DSN cfg) \<noteq> CHR ''/'' \<and>
      UNIPILE_API_KEY cfg \<noteq> [])"
proof (intro conjI impI allI)
  assume "environ (load_dotenv w) ''UNIPILE_DSN'' \<in> {None, Some ''''} \<or>
    environ (load_dotenv w) ''UNIPILE_API_KEY'' \<in> {None, Some ''''}"
  then have "rstrip ''/'' (getenv (load_dotenv w) ''UNIPILE_DSN'' '''') = [] \<or>
    getenv (load_dotenv w) ''UNIPILE_API_KEY'' '''' = []"
    by (auto simp add: getenv_def rstrip_Nil)
  then show "\<exists>evs w'. script name w =
           (Inl (PyException ''RuntimeError''
                   ''Missing UNIPILE_DSN or UNIPILE_API_KEY in .env''), w') \<and>
         trace w' = trace w @ evs \<and>
         (\<forall>p d. AppRun p d \<notin> set evs) \<and> (\<forall>req. RequestsGet req \<notin> set evs)"
    by (auto simp add: script_def script_with_def then_do_def module_body_eq Let_def)
next
  fix cfg w'
  assume "module_body w = (Inr cfg, w')"
  then have c: "cfg = \<lparr>UNIPILE_DSN = rstrip ''/'' (getenv (load_dotenv w) ''UNIPILE_DSN'' ''''),
       UNIPILE_API_KEY = getenv (load_dotenv w) ''UNIPILE_API_KEY'' ''''\<rparr>"
    and ne: "rstrip ''/'' (getenv (load_dotenv w) ''UNIPILE_DSN'' '''') \<noteq> []"
       "getenv (load_dotenv w) ''UNIPILE_API_KEY'' '''' \<noteq> []"
    by (auto simp add: module_body_eq Let_def split: if_splits)
  show "UNIPILE_DSN cfg = rstrip ''/'' (getenv (load_dotenv w) ''UNIPILE_DSN'' '''')"
    by (simp add: c)
  show "UNIPILE_DSN cfg \<noteq> []"
    by (simp add: c ne)
  show "last (UNIPILE_DSN cfg) \<noteq> CHR ''/''"
    using rstrip_last [OF ne(1)] by (simp add: c)
  show "UNIPILE_API_KEY cfg \<noteq> []"
    by (simp add: c ne)
qed

theorem missing_setting_is_fatal_witness:
  "fst (script ''__main__'' world_without_key) =
     Inl (PyException ''RuntimeError'' ''Missing UNIPILE_DSN or UNIPILE_API_KEY in .env'') \<and>
   trace (snd (script ''__main__'' world_without_key)) =
     [Print [PStr ''Loading environment variables...''],
      Print [PStr ''UNIPILE_DSN loaded:'', PBool True],
      Print [PStr ''UNIPILE_API_KEY loaded:'', PBool False]] \<and>
   fst (module_body (world_of (always (Inr \<lparr>status_code = 200, resp_text = ''''\<rparr>)))) =
     Inr \<lparr>UNIPILE_DSN = ''https://api.example.com'', UNIPILE_API_KEY = ''secret123''\<rparr>"
  using missing_setting_is_fatal [of world_without_key "''__main__''"]
    missing_setting_is_fatal
      [of "world_of (always (Inr \<lparr>status_code = 200, resp_text = ''''\<rparr>))" "''__main__''"]
  by (simp add: script_def script_with_def then_do_def module_body_eq Let_def getenv_def
        load_dotenv_def world_without_key_def world_of_def rstrip_example)




section \<open>The scenario of the specification\<close>

text \<open>
  C8. With \<^verbatim>\<open>UNIPILE_DSN=https://api.example.com/\<close> and
  \<^verbatim>\<open>UNIPILE_API_KEY=secret123\<close> the settings load, the base URL kept has lost its
  slash, and a call of \<open>health_unipile\<close> sends one GET to
  \<^verbatim>\<open>https://api.example.com/api/v1/accounts\<close> with the header
  \<^verbatim>\<open>X-API-KEY: secret123\<close>. If the upstream answers that request with status 200
  and the text \<^verbatim>\<open>{"items":[]}\<close>, the handler returns status 200 and the body
  \<^verbatim>\<open>{"ok": true, "status_code": 200, "response": "{\"items\":[]}"}\<close>.
\<close>

theorem example_scenario:
  assumes "environ (load_dotenv w) ''UNIPILE_DSN'' = Some ''https://api.example.com/''"
    and "environ (load_dotenv w) ''UNIPILE_API_KEY'' = Some ''secret123''"
    and \<open>upstream w2
           \<lparr>req_method = ''GET'', req_url = ''https://api.example.com/api/v1/accounts'',
            req_headers = [(''X-API-KEY'', ''secret123''), (''accept'', ''application/json'')],
            req_timeout = 15\<rparr> =
         Inr \<lparr>status_code = 200, resp_text = ''{"items":[]}''\<rparr>\<close>
  shows \<open>\<exists>cfg w1. module_body w = (Inr cfg, w1) \<and>
           UNIPILE_DSN cfg = ''https://api.example.com'' \<and>
           health_unipile cfg w2 =
             (Inr \<lparr>body = JObject [(''ok'', JBool True), (''status_code'', JInt 200),
                                   (''response'', JStr ''{"items":[]}'')],
                   status = 200\<rparr>,
              w2\<lparr>trace := trace w2 @
                [RequestsGet
                   \<lparr>req_method = ''GET'',
                    req_url = ''https://api.example.com/api/v1/accounts'',
                    req_headers = [(''X-API-KEY'', ''secret123''),
                                   (''accept'', ''application/json'')],
                    req_timeout = 15\<rparr>]\<rparr>)\<close>
proof -
  have "module_body w = (Inr cfg_example, snd (module_body w))"
    using assms(1,2)
    by (simp add: module_body_eq Let_def getenv_def rstrip_example cfg_example_def)
  moreover have "UNIPILE_DSN cfg_example = ''https://api.example.com''"
    by (simp add: cfg_example_def)
  moreover have \<open>health_unipile cfg_example w2 =
             (Inr \<lparr>body = JObject [(''ok'', JBool True), (''status_code'', JInt 200),
                                   (''response'', JStr ''{"items":[]}'')],
                   status = 200\<rparr>,
              w2\<lparr>trace := trace w2 @
                [RequestsGet
                   \<lparr>req_method = ''GET'',
                    req_url = ''https://api.example.com/api/v1/accounts'',
                    req_headers = [(''X-API-KEY'', ''secret123''),
                                   (''accept'', ''application/json'')],
                    req_timeout = 15\<rparr>]\<rparr>)\<close>
    using assms(3)
    by (simp add: health_unipile_def try_except_def then_do_def returns_def ping_unipile_eq
          cfg_example_def ok_def jsonify_def with_status_def)
  ultimately show ?thesis by blast
qed

theorem example_scenario_witness:
  \<open>fst (module_body
          (world_of (always (Inr \<lparr>status_code = 200, resp_text = ''{"items":[]}''\<rparr>)))) =
     Inr cfg_example \<and>
   fst (health_unipile cfg_example
          (world_of (always (Inr \<lparr>status_code = 200, resp_text = ''{"items":[]}''\<rparr>)))) =
     Inr \<lparr>body = JObject [(''ok'', JBool True), (''status_code'', JInt 200),
                           (''response'', JStr ''{"items":[]}'')],
          status = 200\<rparr>\<close>
proof -
  let ?w = \<open>world_of (always (Inr \<lparr>status_code = 200, resp_text = ''{"items":[]}''\<rparr>))\<close>
  have e: "environ (load_dotenv ?w) ''UNIPILE_DSN'' = Some ''https://api.example.com/''"
    "environ (load_dotenv ?w) ''UNIPILE_API_KEY'' = Some ''secret123''"
    by (simp_all add: load_dotenv_def world_of_def)
  have u: \<open>upstream ?w
           \<lparr>req_method = ''GET'', req_url = ''https://api.example.com/api/v1/accounts'',
            req_headers = [(''X-API-KEY'', ''secret123''), (''accept'', ''application/json'')],
            req_timeout = 15\<rparr> =
         Inr \<lparr>status_code = 200, resp_text = ''{"items":[]}''\<rparr>\<close>
    by (simp add: world_of_def always_def)
  from example_scenario [OF e u] module_body_example [of "upstream ?w"]
  show ?thesis
    by (auto simp add: world_of_def)
qed

section \<open>Normalising the base URL\<close>

text \<open>
  C10. \<^verbatim>\<open>rstrip("/")\<close> strips every trailing slash: a base that does not end in a
  slash, followed by any number of slashes, is brought back to the base. Stripping
  a stripped value changes nothing. So when \<^verbatim>\<open>UNIPILE_DSN\<close> is a non-empty base
  of that kind followed by any number of slashes, and the API key is not empty,
  the settings load with the base as the base URL, and the URL the probe requests
  is the base, one slash, and \<^verbatim>\<open>api/v1/accounts\<close>.
\<close>

theorem rstrip_all_trailing_slashes:
  assumes "b = [] \<or> last b \<noteq> CHR ''/''"
  shows "rstrip ''/'' (b @ replicate n CHR ''/'') = b \<and>
         rstrip ''/'' (rstrip ''/'' s) = rstrip ''/'' s \<and>
         (\<forall>w k.
            b \<noteq> [] \<and> k \<noteq> [] \<and>
            environ (load_dotenv w) ''UNIPILE_DSN'' = Some (b @ replicate n CHR ''/'') \<and>
            environ (load_dotenv w) ''UNIPILE_API_KEY'' = Some k \<longrightarrow>
            (\<exists>w1. module_body w = (Inr \<lparr>UNIPILE_DSN = b, UNIPILE_API_KEY = k\<rparr>, w1)) \<and>
            (\<forall>w2. snd (ping_unipile \<lparr>UNIPILE_DSN = b, UNIPILE_API_KEY = k\<rparr> w2) =
              w2\<lparr>trace := trace w2 @
                [RequestsGet
                   \<lparr>req_method = ''GET'', req_url = b @ ''/api/v1/accounts'',
                    req_headers = [(''X-API-KEY'', k), (''accept'', ''application/json'')],
                    req_timeout = 15\<rparr>]\<rparr>))"
proof (intro conjI allI impI)
  show r: "rstrip ''/'' (b @ replicate n CHR ''/'') = b"
    using assms by (intro rstrip_replicate) simp_all
  show "rstrip ''/'' (rstrip ''/'' s) = rstrip ''/'' s"
    by (rule rstrip_idem)
  fix w k
  assume a: "b \<noteq> [] \<and> k \<noteq> [] \<and>
            environ (load_dotenv w) ''UNIPILE_DSN'' = Some (b @ replicate n CHR ''/'') \<and>
            environ (load_dotenv w) ''UNIPILE_API_KEY'' = Some k"
  then have "module_body w =
               (Inr \<lparr>UNIPILE_DSN = b, UNIPILE_API_KEY = k\<rparr>, snd (module_body w))"
    by (simp add: module_body_eq Let_def getenv_def r)
  then show "\<exists>w1. module_body w = (Inr \<lparr>UNIPILE_DSN = b, UNIPILE_API_KEY = k\<rparr>, w1)"
    by blast
  fix w2
  show "snd (ping_unipile \<lparr>UNIPILE_DSN = b, UNIPILE_API_KEY = k\<rparr> w2) =
              w2\<lparr>trace := trace w2 @
                [RequestsGet
                   \<lparr>req_method = ''GET'', req_url = b @ ''/api/v1/accounts'',
                    req_headers = [(''X-API-KEY'', k), (''accept'', ''application/json'')],
                    req_timeout = 15\<rparr>]\<rparr>"
    by (simp add: ping_unipile_eq)
qed

theorem rstrip_all_trailing_slashes_witness:
  "rstrip ''/'' ''https://api.example.com///'' = ''https://api.example.com'' \<and>
   rstrip ''/'' (rstrip ''/'' ''https://api.example.com///'') =
     rstrip ''/'' ''https://api.example.com///'' \<and>
   fst (module_body world_slashes) =
     Inr \<lparr>UNIPILE_DSN = ''https://api.example.com'', UNIPILE_API_KEY = ''secret123''\<rparr> \<and>
   trace (snd (ping_unipile
                 \<lparr>UNIPILE_DSN = ''https://api.example.com'', UNIPILE_API_KEY = ''secret123''\<rparr>
                 world_slashes)) =
     [RequestsGet
        \<lparr>req_method = ''GET'', req_url = ''https://api.example.com/api/v1/accounts'',
         req_headers = [(''X-API-KEY'', ''secret123''), (''accept'', ''application/json'')],
         req_timeout = 15\<rparr>]"
proof -
  have h: "''https://api.example.com'' = [] \<or> last ''https://api.example.com'' \<noteq> CHR ''/''"
    by simp
  have g: "''https://api.example.com'' \<noteq> [] \<and> ''secret123'' \<noteq> [] \<and>
           environ (load_dotenv world_slashes) ''UNIPILE_DSN'' =
             Some (''https://api.example.com'' @ replicate 3 CHR ''/'') \<and>
           environ (load_dotenv world_slashes) ''UNIPILE_API_KEY'' = Some ''secret123''"
    by (simp add: load_dotenv_def world_slashes_def numeral_3_eq_3)
  have t: "trace world_slashes = []"
    by (simp add: world_slashes_def)
  from rstrip_all_trailing_slashes [OF h, of 3 "''https://api.example.com///''"]
  have "rstrip ''/'' (''https://api.example.com'' @ replicate 3 CHR ''/'') =
          ''https://api.example.com''"
    and "rstrip ''/'' (rstrip ''/'' ''https://api.example.com///'') =
           rstrip ''/'' ''https://api.example.com///''"
    and "\<exists>w1. module_body world_slashes =
           (Inr \<lparr>UNIPILE_DSN = ''https://api.example.com'', UNIPILE_API_KEY = ''secret123''\<rparr>,
            w1)"
    and "snd (ping_unipile
                \<lparr>UNIPILE_DSN = ''https://api.example.com'', UNIPILE_API_KEY = ''secret123''\<rparr>
                world_slashes) =
              world_slashes\<lparr>trace := trace world_slashes @
                [RequestsGet
                   \<lparr>req_method = ''GET'',
                    req_url = ''https://api.example.com'' @ ''/api/v1/accounts'',
                    req_headers = [(''X-API-KEY'', ''secret123''),
                                   (''accept'', ''application/json'')],
                    req_timeout = 15\<rparr>]\<rparr>"
    using g by blast+
  then show ?thesis
    by (auto simp add: t numeral_3_eq_3)
qed

end
